theory Spec2Isabelle
  imports Main
begin

section \<open>AsyncAPI schema of the Redis handler and publisher\<close>

text \<open>
  Embedding of \<^verbatim>\<open>faststream/redis/asyncapi.py\<close>. The schema classes
  (\<^verbatim>\<open>Channel\<close>, \<^verbatim>\<open>Operation\<close>, \<^verbatim>\<open>Message\<close>, \<^verbatim>\<open>CorrelationId\<close>,
  \<^verbatim>\<open>ChannelBinding\<close>) are plain data holders and become records with the
  fields the two \<^verbatim>\<open>schema\<close> methods fill in (the field \<^verbatim>\<open>method\<close>
  of the Redis binding is \<open>binding_method\<close> here). A Python dictionary with
  insertion order is an association list.
\<close>

record CorrelationId =
  location :: string

record 'q Message =
  title :: string
  payload :: 'q
  correlationId :: CorrelationId

record 'q Operation =
  message :: "'q Message"

record redis_ChannelBinding =
  channel :: string
  binding_method :: "string option"

record ChannelBinding =
  redis :: redis_ChannelBinding

record 'q Channel =
  description :: "string option"
  subscribe :: "'q Operation option"
  publish :: "'q Operation option"
  bindings :: ChannelBinding

text \<open>
  The subscription descriptors \<^verbatim>\<open>PubSub\<close>, \<^verbatim>\<open>ListSub\<close> and \<^verbatim>\<open>StreamSub\<close>
  are declared outside this file; \<^verbatim>\<open>schema\<close> reads only whether each is
  \<^verbatim>\<open>None\<close> and the \<^verbatim>\<open>pattern\<close> flag of the channel.
\<close>

record PubSub =
  pubsub_name :: string
  pattern :: bool

record ListSub =
  listsub_name :: string

record StreamSub =
  streamsub_name :: string

text \<open>
  The attributes of \<^verbatim>\<open>LogicRedisHandler\<close> that \<^verbatim>\<open>Handler.schema\<close> reads.
  \<^verbatim>\<open>channel_name\<close>, \<^verbatim>\<open>call_name\<close> and \<^verbatim>\<open>get_payloads()\<close> are computed by
  the base class, which is not part of this file, so their values are fields.
\<close>

record 'p Handler =
  h_include_in_schema :: bool
  h_title :: "string option"
  h_channel_name :: string
  h_call_name :: string
  h_description :: "string option"
  h_list_sub :: "ListSub option"
  h_channel :: "PubSub option"
  h_stream_sub :: "StreamSub option"
  h_payloads :: 'p

text \<open>The attributes of \<^verbatim>\<open>LogicPublisher\<close> that \<^verbatim>\<open>Publisher.schema\<close> reads.\<close>

record 'p Publisher =
  p_include_in_schema :: bool
  p_title :: "string option"
  p_channel_name :: string
  p_description :: "string option"
  p_list :: "ListSub option"
  p_channel :: "PubSub option"
  p_stream_sub :: "StreamSub option"
  p_payloads :: 'p

text \<open>
  Python's \<^verbatim>\<open>a or b\<close> on an optional string: \<^verbatim>\<open>None\<close> and the empty string
  are both falsy, so both give \<^verbatim>\<open>b\<close>.
\<close>

definition str_or :: "string option \<Rightarrow> string \<Rightarrow> string" where
  "str_or a b = (case a of None \<Rightarrow> b | Some s \<Rightarrow> if s = [] then b else s)"

text \<open>The \<^verbatim>\<open>if\<close>/\<^verbatim>\<open>elif\<close> chain of \<^verbatim>\<open>Handler.schema\<close> that picks the method.\<close>

definition handler_method :: "'p Handler \<Rightarrow> string option" where
  "handler_method h =
     (if h_list_sub h \<noteq> None then Some ''lpop''
      else case h_channel h of
        Some ch \<Rightarrow> (if pattern ch then Some ''psubscribe'' else Some ''subscribe'')
      | None \<Rightarrow> (if h_stream_sub h \<noteq> None then Some ''xread'' else None))"

text \<open>
  \<^verbatim>\<open>Handler.schema\<close>. \<^verbatim>\<open>resolve_payloads\<close> is imported from
  \<^verbatim>\<open>faststream.asyncapi.utils\<close> and is a parameter; its second argument is
  optional and the handler omits it.
\<close>

definition Handler_schema ::
  "('p \<Rightarrow> string option \<Rightarrow> 'q) \<Rightarrow> 'p Handler \<Rightarrow> (string \<times> 'q Channel) list" where
  "Handler_schema resolve_payloads h =
     (if \<not> h_include_in_schema h then []
      else
        let payloads = h_payloads h;
            handler_name = str_or (h_title h) (h_channel_name h @ '':'' @ h_call_name h);
            meth = handler_method h
        in [(handler_name,
             \<lparr> description = h_description h,
               subscribe = Some \<lparr> message =
                 \<lparr> title = handler_name @ '':Message'',
                   payload = resolve_payloads payloads None,
                   correlationId = \<lparr> location = ''$message.header#/correlation_id'' \<rparr> \<rparr> \<rparr>,
               publish = None,
               bindings = \<lparr> redis = \<lparr> channel = h_channel_name h, binding_method = meth \<rparr> \<rparr> \<rparr>)])"

text \<open>The property \<^verbatim>\<open>Publisher.name\<close>.\<close>

definition Publisher_name :: "'p Publisher \<Rightarrow> string" where
  "Publisher_name p = str_or (p_title p) (p_channel_name p @ '':Publisher'')"

text \<open>The \<^verbatim>\<open>if\<close>/\<^verbatim>\<open>elif\<close> chain of \<^verbatim>\<open>Publisher.schema\<close>.\<close>

definition publisher_method :: "'p Publisher \<Rightarrow> string option" where
  "publisher_method p =
     (if p_list p \<noteq> None then Some ''rpush''
      else if p_channel p \<noteq> None then Some ''publish''
      else if p_stream_sub p \<noteq> None then Some ''xadd''
      else None)"

text \<open>\<^verbatim>\<open>Publisher.schema\<close>; it passes \<^verbatim>\<open>"Publisher"\<close> to \<^verbatim>\<open>resolve_payloads\<close>.\<close>

definition Publisher_schema ::
  "('p \<Rightarrow> string option \<Rightarrow> 'q) \<Rightarrow> 'p Publisher \<Rightarrow> (string \<times> 'q Channel) list" where
  "Publisher_schema resolve_payloads p =
     (if \<not> p_include_in_schema p then []
      else
        let payloads = p_payloads p;
            meth = publisher_method p
        in [(Publisher_name p,
             \<lparr> description = p_description p,
               subscribe = None,
               publish = Some \<lparr> message =
                 \<lparr> title = Publisher_name p @ '':Message'',
                   payload = resolve_payloads payloads (Some ''Publisher''),
                   correlationId = \<lparr> location = ''$message.header#/correlation_id'' \<rparr> \<rparr> \<rparr>,
               bindings = \<lparr> redis = \<lparr> channel = p_channel_name p, binding_method = meth \<rparr> \<rparr> \<rparr>)])"

text \<open>Concrete handlers and publishers used to evaluate the definitions.\<close>

definition keep_payloads :: "string list \<Rightarrow> string option \<Rightarrow> string list" where
  "keep_payloads ps extra = ps"

definition demo_handler :: "string list Handler" where
  "demo_handler =
     \<lparr> h_include_in_schema = True, h_title = None, h_channel_name = ''test'',
       h_call_name = ''Handle'', h_description = None, h_list_sub = None,
       h_channel = Some \<lparr> pubsub_name = ''test'', pattern = False \<rparr>,
       h_stream_sub = None, h_payloads = [] \<rparr>"

definition demo_publisher :: "string list Publisher" where
  "demo_publisher =
     \<lparr> p_include_in_schema = True, p_title = None, p_channel_name = ''test'',
       p_description = None, p_list = None,
       p_channel = Some \<lparr> pubsub_name = ''test'', pattern = False \<rparr>,
       p_stream_sub = None, p_payloads = [] \<rparr>"


section \<open>The dispatch core and the in-memory broker simulator\<close>

text \<open>
  Modelled from the spec: the dispatch core (message envelope, parser and
  decoder, middleware chain, subscription registry, dispatcher, RPC correlator,
  in-memory simulator and the context store) is code of this repository that is
  not among the source files; only its tests are. The definitions of this
  section follow sections 3 to 7 of the specification and, for the context
  store, the tests \<^verbatim>\<open>test_initial_context\<close> and \<^verbatim>\<open>test_initial.py\<close>.
  Not modelled: real time (the time bound of a batch, the timeout of an RPC call
  in seconds; a timeout is a number of event-loop steps here), the poll loop of
  list-pop subscriptions and the cursor of stream-read subscriptions (both match
  by name), consumer groups, and the opaque acknowledgement handle.
\<close>

subsection \<open>Data model\<close>

text \<open>Modelled from the spec: message bodies and payloads, as the values the tests publish.\<close>

datatype val =
    VNone
  | VInt int
  | VStr string
  | VList "val list"
  | VTuple "val list"
  | VDict "(string \<times> val) list"

datatype match_kind = Exact | WildcardPattern | ListPop | StreamRead

datatype ack_kind = Ack | Nack | Reject

text \<open>Modelled from the spec: the error taxonomy of section 7.\<close>

datatype error =
    DecodeError val
  | ValidationError val
  | HandlerError string
  | TimeoutError
  | RoutingError

text \<open>
  Modelled from the spec: the Envelope of section 3. The correlation id is an
  opaque token; it is a number here so that a fresh one can be generated.
\<close>

record Envelope =
  raw_body :: val
  decoded_body :: "val option"
  headers :: "(string \<times> string) list"
  correlation_id :: nat
  reply_to :: "string option"
  destination :: string

text \<open>Modelled from the spec: the Publication of section 3.\<close>

record Publication =
  pub_destination :: string
  pub_body :: val
  pub_headers :: "(string \<times> string) list"
  pub_correlation_id :: "nat option"
  pub_reply_to :: "string option"
  pub_is_batch :: bool

text \<open>
  Modelled from the spec: the context store. The scoped part is the per-call
  state of section 4.5; the global part is the store that
  \<^verbatim>\<open>context.get\<close>, \<^verbatim>\<open>context.reset_global\<close> and \<^verbatim>\<open>context.clear\<close> of the
  tests act on.
\<close>

record Context =
  global_ctx :: "(string \<times> val) list"
  scoped_ctx :: "(string \<times> val) list"

text \<open>
  Modelled from the spec: a handler pipeline. The resolver is the typed payload
  resolver of section 9 (\<open>None\<close> is a validation error); the handler body reads
  and may change the context, and returns a value or raises (\<open>Inl\<close>);
  \<open>scoped_dependency\<close> says that the handler has a generator-style dependency.
\<close>

record handler_pipeline =
  resolver :: "Envelope \<Rightarrow> val option"
  scoped_dependency :: bool
  handler :: "val \<Rightarrow> Context \<Rightarrow> (string + val) \<times> Context"

datatype decision = Proceed | ShortCircuit ack_kind

text \<open>Modelled from the spec: an interceptor of the middleware chain (section 4.3).\<close>

record Interceptor =
  mw_id :: nat
  on_receive :: "Envelope \<Rightarrow> decision"

text \<open>Modelled from the spec: the outbound publication target attached to a subscription.\<close>

record Target =
  target_destination :: string
  target_is_batch :: bool

text \<open>
  Modelled from the spec: the Subscription of section 3, with the options of
  registration: the decode stage, the size bound of a batch, the attached
  publication target and the disposition of a handler error.
\<close>

record Subscription =
  destination_pattern :: string
  match_kind :: match_kind
  handler_pipeline :: handler_pipeline
  middleware_stack :: "Interceptor list"
  is_batch :: bool
  batch_bound :: nat
  group_id :: "string option"
  decoder :: "val \<Rightarrow> val option"
  publisher :: "Target option"
  reject_on_error :: bool

text \<open>
  Modelled from the spec: what the dispatcher and the test-facing mocks record.
  Every event but \<open>Sent\<close> carries the index of its subscription in the registry.
\<close>

datatype event =
    Delivered nat val
  | MwEnter nat nat
  | MwExit nat nat
  | DepSetup nat
  | HandlerEnter nat val
  | HandlerExit nat
  | DepCleanup nat
  | MwPublish nat nat
  | Logged nat error
  | Resolved nat ack_kind
  | Sent string val bool

text \<open>
  Modelled from the spec: the state of the simulator: the registry, the queue of
  publications handed to the transport, the accumulator of every batch
  subscription, the recorded events, the context store and the pending RPC calls.
\<close>

record Simulator =
  registry :: "Subscription list"
  queue :: "Publication list"
  buffers :: "nat \<Rightarrow> val list"
  trace :: "event list"
  ctx :: Context
  pending :: "(nat \<times> val option) list"
  next_correlation_id :: nat

datatype outcome = Returned val | Failed error | Skipped ack_kind

subsection \<open>Matching\<close>

fun split_on :: "char \<Rightarrow> string \<Rightarrow> string list" where
  "split_on c [] = [[]]"
| "split_on c (x # xs) =
     (if x = c then [] # split_on c xs
      else case split_on c xs of
             s # ss \<Rightarrow> (x # s) # ss
           | [] \<Rightarrow> [[x]])"

text \<open>
  Modelled from the spec: segment-wise glob match, left to right: \<^verbatim>\<open>*\<close> is one
  segment, a trailing \<^verbatim>\<open>**\<close> is the remaining segments.
\<close>

fun glob_match :: "string list \<Rightarrow> string list \<Rightarrow> bool" where
  "glob_match [] [] = True"
| "glob_match [] (s # ss) = False"
| "glob_match (p # ps) ss =
     (if p = ''**'' \<and> ps = [] then True
      else case ss of
             [] \<Rightarrow> False
           | s # ss' \<Rightarrow> (p = ''*'' \<or> p = s) \<and> glob_match ps ss')"

text \<open>Modelled from the spec: the matching algorithm by match kind (section 4.4).\<close>

definition matches :: "Subscription \<Rightarrow> string \<Rightarrow> bool" where
  "matches s d =
     (case match_kind s of
        Exact \<Rightarrow> d = destination_pattern s
      | WildcardPattern \<Rightarrow>
          glob_match (split_on CHR ''.'' (destination_pattern s)) (split_on CHR ''.'' d)
      | ListPop \<Rightarrow> d = destination_pattern s
      | StreamRead \<Rightarrow> d = destination_pattern s)"

text \<open>
  Modelled from the spec: \<^verbatim>\<open>register\<close> validates that the pattern is not
  empty and that the match kind is supported by the transport family, and stores
  the subscription; the handle it returns is the index of the subscription.
\<close>

definition register ::
  "match_kind list \<Rightarrow> Subscription \<Rightarrow> Simulator \<Rightarrow> error + (nat \<times> Simulator)" where
  "register supported s st =
     (if destination_pattern s = [] \<or> match_kind s \<notin> set supported then Inl RoutingError
      else Inr (length (registry st), st\<lparr>registry := registry st @ [s]\<rparr>))"

subsection \<open>Dispatch\<close>

definition record_event :: "event \<Rightarrow> Simulator \<Rightarrow> Simulator" where
  "record_event e st = st\<lparr>trace := trace st @ [e]\<rparr>"

text \<open>Modelled from the spec: handing a publication to the transport enqueues it.\<close>

definition enqueue :: "Publication \<Rightarrow> Simulator \<Rightarrow> Simulator" where
  "enqueue p st = st\<lparr>queue := queue st @ [p]\<rparr>"

text \<open>
  Modelled from the spec: a publication sent through a publisher object or as a
  reply is recorded by the mock (destination, body, batch flag) and enqueued.
\<close>

definition send :: "Publication \<Rightarrow> Simulator \<Rightarrow> Simulator" where
  "send p st = enqueue p (record_event (Sent (pub_destination p) (pub_body p) (pub_is_batch p)) st)"

text \<open>
  Modelled from the spec: the default decode stage of the simulator loses
  nothing, and the default resolver hands the decoded body to the handler.
\<close>

definition default_decoder :: "val \<Rightarrow> val option" where
  "default_decoder b = Some b"

definition default_resolver :: "Envelope \<Rightarrow> val option" where
  "default_resolver e = decoded_body e"

text \<open>
  Modelled from the spec: the validation layer and the handler invocation. A
  payload that fails the resolver is a validation error and the body does not
  run. Otherwise a generator-style dependency is set up, the body runs, and the
  dependency is cleaned up, whether the body returned or raised.
\<close>

definition invoke_handler :: "nat \<Rightarrow> Subscription \<Rightarrow> Envelope \<Rightarrow> Simulator \<Rightarrow> outcome \<times> Simulator" where
  "invoke_handler i s e st =
     (let hp = handler_pipeline s in
      case resolver hp e of
        None \<Rightarrow> (Failed (ValidationError (case decoded_body e of Some d \<Rightarrow> d | None \<Rightarrow> raw_body e)), st)
      | Some arg \<Rightarrow>
          let st1 = (if scoped_dependency hp then record_event (DepSetup i) st else st);
              st2 = record_event (HandlerEnter i arg) st1;
              res = handler hp arg (ctx st2);
              st3 = record_event (HandlerExit i) (st2\<lparr>ctx := snd res\<rparr>);
              st4 = (if scoped_dependency hp then record_event (DepCleanup i) st3 else st3)
          in case fst res of
               Inl err \<Rightarrow> (Failed (HandlerError err), st4)
             | Inr v \<Rightarrow> (Returned v, st4))"

text \<open>
  Modelled from the spec: the inbound middleware chain, nested outside-in. An
  interceptor that short-circuits skips the inner interceptors and the handler;
  every interceptor that was entered is left exactly once.
\<close>

fun run_chain ::
  "Interceptor list \<Rightarrow> nat \<Rightarrow> Envelope \<Rightarrow> (Simulator \<Rightarrow> outcome \<times> Simulator)
     \<Rightarrow> Simulator \<Rightarrow> outcome \<times> Simulator" where
  "run_chain [] i e k st = k st"
| "run_chain (m # ms) i e k st =
     (let st1 = record_event (MwEnter (mw_id m) i) st in
      case on_receive m e of
        ShortCircuit a \<Rightarrow> (Skipped a, record_event (MwExit (mw_id m) i) st1)
      | Proceed \<Rightarrow>
          let r = run_chain ms i e k st1
          in (fst r, record_event (MwExit (mw_id m) i) (snd r)))"

text \<open>
  Modelled from the spec: the publication built from a handler's return value
  for the attached target. A batch target publishes a tuple or a list as one
  batch of its items, and any other value as a batch of one.
\<close>

definition make_publication :: "Target \<Rightarrow> val \<Rightarrow> Publication" where
  "make_publication t v =
     \<lparr> pub_destination = target_destination t,
       pub_body = (if target_is_batch t
                   then (case v of VTuple xs \<Rightarrow> VList xs | VList xs \<Rightarrow> VList xs | _ \<Rightarrow> VList [v])
                   else v),
       pub_headers = [],
       pub_correlation_id = None,
       pub_reply_to = None,
       pub_is_batch = target_is_batch t \<rparr>"

text \<open>Modelled from the spec: the outbound middleware chain sees the publication.\<close>

definition outbound_chain :: "Interceptor list \<Rightarrow> nat \<Rightarrow> Simulator \<Rightarrow> Simulator" where
  "outbound_chain ms i st = foldl (\<lambda>acc m. record_event (MwPublish (mw_id m) i) acc) st ms"

text \<open>
  Modelled from the spec: a non-null return value of a subscription with an
  attached target is a publish instruction to that target.
\<close>

definition publish_result :: "nat \<Rightarrow> Subscription \<Rightarrow> val \<Rightarrow> Simulator \<Rightarrow> Simulator" where
  "publish_result i s v st =
     (case publisher s of
        None \<Rightarrow> st
      | Some t \<Rightarrow>
          if v = VNone then st
          else send (make_publication t v) (outbound_chain (middleware_stack s) i st))"

text \<open>
  Modelled from the spec: the reply of an RPC-style message: the return value,
  sent to the reply destination with the correlation id of the request.
\<close>

definition send_reply :: "Envelope \<Rightarrow> val \<Rightarrow> Simulator \<Rightarrow> Simulator" where
  "send_reply e v st =
     (case reply_to e of
        None \<Rightarrow> st
      | Some r \<Rightarrow>
          send \<lparr> pub_destination = r, pub_body = v, pub_headers = [],
                 pub_correlation_id = Some (correlation_id e), pub_reply_to = None,
                 pub_is_batch = False \<rparr> st)"

text \<open>Modelled from the spec: the acknowledgement outcome and the logging of errors.\<close>

definition settle :: "nat \<Rightarrow> Subscription \<Rightarrow> Envelope \<Rightarrow> outcome \<Rightarrow> Simulator \<Rightarrow> Simulator" where
  "settle i s e out st =
     (case out of
        Returned v \<Rightarrow> record_event (Resolved i Ack) (publish_result i s v (send_reply e v st))
      | Failed err \<Rightarrow>
          record_event
            (Resolved i (case err of
                           HandlerError m \<Rightarrow> (if reject_on_error s then Reject else Nack)
                         | _ \<Rightarrow> Reject))
            (record_event (Logged i err) st)
      | Skipped a \<Rightarrow> record_event (Resolved i a) st)"

text \<open>
  Modelled from the spec: one delivery to one subscription: decode, establish
  the scoped per-call state, run the inbound chain around the handler, publish
  the result, resolve the acknowledgement, and tear the scoped state down.
\<close>

definition process :: "nat \<Rightarrow> Subscription \<Rightarrow> Envelope \<Rightarrow> Simulator \<Rightarrow> Simulator" where
  "process i s e st =
     (case decoder s (raw_body e) of
        None \<Rightarrow> settle i s e (Failed (DecodeError (raw_body e))) st
      | Some d \<Rightarrow>
          let e' = e\<lparr>decoded_body := Some d\<rparr>;
              saved = scoped_ctx (ctx st);
              st1 = st\<lparr>ctx := (ctx st)\<lparr>scoped_ctx := (''message'', d) # saved\<rparr>\<rparr>;
              r = run_chain (middleware_stack s) i e' (invoke_handler i s e') st1;
              st2 = settle i s e' (fst r) (snd r)
          in st2\<lparr>ctx := (ctx st2)\<lparr>scoped_ctx := saved\<rparr>\<rparr>)"

text \<open>
  Modelled from the spec: the delivery path of a subscription. A batch
  subscription accumulates the bodies and hands the list to the handler once
  the size bound is reached.
\<close>

definition deliver :: "nat \<Rightarrow> Subscription \<Rightarrow> Envelope \<Rightarrow> Simulator \<Rightarrow> Simulator" where
  "deliver i s e st =
     (let st1 = record_event (Delivered i (raw_body e)) st in
      if is_batch s then
        let buf = buffers st1 i @ [raw_body e]
        in if batch_bound s \<le> length buf
           then process i s (e\<lparr>raw_body := VList buf\<rparr>) (st1\<lparr>buffers := (buffers st1)(i := [])\<rparr>)
           else st1\<lparr>buffers := (buffers st1)(i := buf)\<rparr>
      else process i s e st1)"

text \<open>Modelled from the spec: every matching subscription fires, in registration order.\<close>

fun deliver_all :: "nat \<Rightarrow> Subscription list \<Rightarrow> Envelope \<Rightarrow> Simulator \<Rightarrow> Simulator" where
  "deliver_all i [] e st = st"
| "deliver_all i (s # ss) e st =
     deliver_all (Suc i) ss e (if matches s (destination e) then deliver i s e st else st)"

text \<open>Modelled from the spec: the parse stage; the decoded body is not set yet.\<close>

definition parse :: "nat \<Rightarrow> Publication \<Rightarrow> val \<Rightarrow> Envelope" where
  "parse fresh p b =
     \<lparr> raw_body = b, decoded_body = None, headers = pub_headers p,
       correlation_id = (case pub_correlation_id p of Some c \<Rightarrow> c | None \<Rightarrow> fresh),
       reply_to = pub_reply_to p, destination = pub_destination p \<rparr>"

definition messages_of :: "Publication \<Rightarrow> val list" where
  "messages_of p =
     (if pub_is_batch p
      then (case pub_body p of VList xs \<Rightarrow> xs | VTuple xs \<Rightarrow> xs | b \<Rightarrow> [b])
      else [pub_body p])"

text \<open>
  Modelled from the spec: \<^verbatim>\<open>dispatch\<close>: parse, then deliver to the matching
  subscriptions. A batch publication is a sequence of messages.
\<close>

definition dispatch_message :: "Publication \<Rightarrow> Simulator \<Rightarrow> val \<Rightarrow> Simulator" where
  "dispatch_message p st b =
     (let fresh = next_correlation_id st;
          st1 = (if pub_correlation_id p = None then st\<lparr>next_correlation_id := Suc fresh\<rparr> else st)
      in deliver_all 0 (registry st1) (parse fresh p b) st1)"

definition dispatch :: "Publication \<Rightarrow> Simulator \<Rightarrow> Simulator" where
  "dispatch p st = foldl (dispatch_message p) st (messages_of p)"

subsection \<open>RPC correlator and event loop\<close>

text \<open>Modelled from the spec: the private reply destination of RPC calls.\<close>

definition reply_destination :: string where
  "reply_destination = ''_INBOX''"

fun resolve_pending :: "nat \<Rightarrow> val \<Rightarrow> (nat \<times> val option) list \<Rightarrow> (nat \<times> val option) list" where
  "resolve_pending c v [] = []"
| "resolve_pending c v ((k, slot) # ps) =
     (if k = c then (k, Some v) # ps else (k, slot) # resolve_pending c v ps)"

text \<open>
  Modelled from the spec: a reply with a correlation id that is pending fills
  the slot of that call; any other reply is dropped.
\<close>

definition correlate :: "Publication \<Rightarrow> Simulator \<Rightarrow> Simulator" where
  "correlate p st =
     (case pub_correlation_id p of
        None \<Rightarrow> st
      | Some c \<Rightarrow> st\<lparr>pending := resolve_pending c (pub_body p) (pending st)\<rparr>)"

text \<open>Modelled from the spec: one step of the event loop takes the oldest publication.\<close>

definition step :: "Simulator \<Rightarrow> Simulator" where
  "step st =
     (case queue st of
        [] \<Rightarrow> st
      | p # ps \<Rightarrow>
          if pub_destination p = reply_destination
          then correlate p (st\<lparr>queue := ps\<rparr>)
          else dispatch p (st\<lparr>queue := ps\<rparr>))"

text \<open>
  Modelled from the spec: the event loop, with fuel: \<open>None\<close> when the queue is
  not empty after that many steps.
\<close>

fun run :: "nat \<Rightarrow> Simulator \<Rightarrow> Simulator option" where
  "run 0 st = (if queue st = [] then Some st else None)"
| "run (Suc n) st = (if queue st = [] then Some st else run n (step st))"

text \<open>Modelled from the spec: publishing through the simulator.\<close>

definition sim_publish :: "nat \<Rightarrow> Publication \<Rightarrow> Simulator \<Rightarrow> Simulator option" where
  "sim_publish fuel p st = run fuel (enqueue p st)"

text \<open>
  Modelled from the spec: the wait of an RPC call: the loop runs until the slot
  is filled, the queue is empty or the timeout (a number of steps) has elapsed.
\<close>

fun await_reply :: "nat \<Rightarrow> nat \<Rightarrow> Simulator \<Rightarrow> Simulator" where
  "await_reply 0 c st = st"
| "await_reply (Suc n) c st =
     (case map_of (pending st) c of
        Some (Some v) \<Rightarrow> st
      | _ \<Rightarrow> if queue st = [] then st else await_reply n c (step st))"

text \<open>
  Modelled from the spec: \<^verbatim>\<open>call\<close>: a fresh correlation id, a pending call
  under it, a publication with the reply destination, the wait, and the removal
  of the pending call on both exits.
\<close>

definition call ::
  "nat \<Rightarrow> string \<Rightarrow> val \<Rightarrow> (string \<times> string) list \<Rightarrow> Simulator \<Rightarrow> (error + val) \<times> Simulator" where
  "call timeout dest body hdrs st =
     (let c = next_correlation_id st;
          st1 = st\<lparr>next_correlation_id := Suc c, pending := (c, None) # pending st\<rparr>;
          p = \<lparr> pub_destination = dest, pub_body = body, pub_headers = hdrs,
                pub_correlation_id = Some c, pub_reply_to = Some reply_destination,
                pub_is_batch = False \<rparr>;
          st2 = await_reply timeout c (enqueue p st1);
          st3 = st2\<lparr>pending := filter (\<lambda>kv. fst kv \<noteq> c) (pending st2)\<rparr>
      in case map_of (pending st2) c of
           Some (Some v) \<Rightarrow> (Inr v, st3)
         | _ \<Rightarrow> (Inl TimeoutError, st3))"

subsection \<open>Test-facing introspection\<close>

text \<open>
  Modelled from the spec: the call history of a subscription's handler, the
  errors logged for it, the order of its dependency and handler events, the
  messages its delivery path received, and the mock of a publisher.
\<close>

fun handler_calls :: "nat \<Rightarrow> event list \<Rightarrow> val list" where
  "handler_calls i [] = []"
| "handler_calls i (HandlerEnter j v # es) =
     (if j = i then v # handler_calls i es else handler_calls i es)"
| "handler_calls i (x # es) = handler_calls i es"

fun received :: "nat \<Rightarrow> event list \<Rightarrow> val list" where
  "received i [] = []"
| "received i (Delivered j v # es) =
     (if j = i then v # received i es else received i es)"
| "received i (x # es) = received i es"

fun logged_errors :: "nat \<Rightarrow> event list \<Rightarrow> error list" where
  "logged_errors i [] = []"
| "logged_errors i (Logged j err # es) =
     (if j = i then err # logged_errors i es else logged_errors i es)"
| "logged_errors i (x # es) = logged_errors i es"

fun is_lifecycle :: "nat \<Rightarrow> event \<Rightarrow> bool" where
  "is_lifecycle i (DepSetup j) = (j = i)"
| "is_lifecycle i (HandlerEnter j v) = (j = i)"
| "is_lifecycle i (HandlerExit j) = (j = i)"
| "is_lifecycle i (DepCleanup j) = (j = i)"
| "is_lifecycle i x = False"

definition lifecycle :: "nat \<Rightarrow> event list \<Rightarrow> event list" where
  "lifecycle i es = filter (is_lifecycle i) es"

fun publisher_mock :: "string \<Rightarrow> event list \<Rightarrow> val list" where
  "publisher_mock d [] = []"
| "publisher_mock d (Sent d' v b # es) =
     (if d' = d then v # publisher_mock d es else publisher_mock d es)"
| "publisher_mock d (x # es) = publisher_mock d es"

subsection \<open>Concrete subscriptions and states used to evaluate the definitions\<close>

definition echo :: "val \<Rightarrow> Context \<Rightarrow> (string + val) \<times> Context" where
  "echo v c = (Inr v, c)"

definition plain_pipeline :: handler_pipeline where
  "plain_pipeline = \<lparr> resolver = default_resolver, scoped_dependency = False, handler = echo \<rparr>"

definition subscriber :: "string \<Rightarrow> Subscription" where
  "subscriber d =
     \<lparr> destination_pattern = d, match_kind = Exact, handler_pipeline = plain_pipeline,
       middleware_stack = [], is_batch = False, batch_bound = 1, group_id = None,
       decoder = default_decoder, publisher = None, reject_on_error = False \<rparr>"

definition empty_context :: Context where
  "empty_context = \<lparr> global_ctx = [], scoped_ctx = [] \<rparr>"

definition broker :: "Subscription list \<Rightarrow> Simulator" where
  "broker subs =
     \<lparr> registry = subs, queue = [], buffers = (\<lambda>i. []), trace = [],
       ctx = empty_context, pending = [], next_correlation_id = 0 \<rparr>"

definition message_to :: "string \<Rightarrow> val \<Rightarrow> Publication" where
  "message_to d b =
     \<lparr> pub_destination = d, pub_body = b, pub_headers = [], pub_correlation_id = None,
       pub_reply_to = None, pub_is_batch = False \<rparr>"

text \<open>
  The handler of \<^verbatim>\<open>test_initial_context\<close> and of the documentation example
  behind \<^verbatim>\<open>test_initial.py\<close>: \<^verbatim>\<open>Context(key, initial=list)\<close> creates the
  value in the global store when it is missing, and the body adds the message.
\<close>

definition collect :: "string \<Rightarrow> val \<Rightarrow> Context \<Rightarrow> (string + val) \<times> Context" where
  "collect key v c =
     (let old = (case map_of (scoped_ctx c @ global_ctx c) key of
                   Some (VList xs) \<Rightarrow> xs
                 | _ \<Rightarrow> [])
      in (Inr VNone,
          c\<lparr>global_ctx := (key, VList (old @ [v])) # filter (\<lambda>kv. fst kv \<noteq> key) (global_ctx c)\<rparr>))"

text \<open>The resolver of a handler that declares \<^verbatim>\<open>msg: int\<close>.\<close>

definition int_resolver :: "Envelope \<Rightarrow> val option" where
  "int_resolver e = (case decoded_body e of Some (VInt n) \<Rightarrow> Some (VInt n) | _ \<Rightarrow> None)"

definition failing :: "val \<Rightarrow> Context \<Rightarrow> (string + val) \<times> Context" where
  "failing v c = (Inl ''boom'', c)"

subsection \<open>Auxiliary notions for the proofs\<close>

text \<open>The subscription an event belongs to.\<close>

fun event_sub :: "event \<Rightarrow> nat option" where
  "event_sub (Delivered i v) = Some i"
| "event_sub (MwEnter m i) = Some i"
| "event_sub (MwExit m i) = Some i"
| "event_sub (DepSetup i) = Some i"
| "event_sub (HandlerEnter i v) = Some i"
| "event_sub (HandlerExit i) = Some i"
| "event_sub (DepCleanup i) = Some i"
| "event_sub (MwPublish m i) = Some i"
| "event_sub (Logged i err) = Some i"
| "event_sub (Resolved i a) = Some i"
| "event_sub (Sent d v b) = None"

text \<open>
  \<open>grows st st'\<close>: from \<open>st\<close> to \<open>st'\<close> the registry, the pending calls and the
  id counter are kept and the trace and the queue are only appended to;
  \<open>new_events st st'\<close> is what was appended to the trace.
\<close>

definition new_events :: "Simulator \<Rightarrow> Simulator \<Rightarrow> event list" where
  "new_events st st' = drop (length (trace st)) (trace st')"

definition grows :: "Simulator \<Rightarrow> Simulator \<Rightarrow> bool" where
  "grows st st' \<longleftrightarrow>
     registry st' = registry st \<and> pending st' = pending st \<and>
     next_correlation_id st' = next_correlation_id st \<and>
     take (length (trace st)) (trace st') = trace st \<and>
     take (length (queue st)) (queue st') = queue st"

text \<open>\<open>stable i st st'\<close>: nothing happened to subscription \<open>i\<close> from \<open>st\<close> to \<open>st'\<close>.\<close>

definition stable :: "nat \<Rightarrow> Simulator \<Rightarrow> Simulator \<Rightarrow> bool" where
  "stable i st st' \<longleftrightarrow>
     grows st st' \<and> buffers st' i = buffers st i \<and>
     list_all (\<lambda>x. event_sub x \<noteq> Some i) (new_events st st')"

text \<open>\<open>only i st st'\<close>: only subscription \<open>i\<close> was active from \<open>st\<close> to \<open>st'\<close>.\<close>

definition only :: "nat \<Rightarrow> Simulator \<Rightarrow> Simulator \<Rightarrow> bool" where
  "only i st st' \<longleftrightarrow>
     grows st st' \<and> (\<forall>j. j \<noteq> i \<longrightarrow> buffers st' j = buffers st j) \<and>
     list_all (\<lambda>x. event_sub x = Some i \<or> event_sub x = None) (new_events st st')"

text \<open>
  The envelope that reaches the inbound chain and the resolver of a
  subscription, and the condition that the chain lets it through and the
  resolver gives the handler argument \<open>arg\<close>.
\<close>

definition decoded_envelope :: "Simulator \<Rightarrow> Publication \<Rightarrow> val \<Rightarrow> val \<Rightarrow> Envelope" where
  "decoded_envelope st p b d = (parse (next_correlation_id st) p b)\<lparr>decoded_body := Some d\<rparr>"

definition accepts :: "Subscription \<Rightarrow> Envelope \<Rightarrow> val \<Rightarrow> bool" where
  "accepts s e arg \<longleftrightarrow>
     list_all (\<lambda>m. on_receive m e = Proceed) (middleware_stack s) \<and>
     resolver (handler_pipeline s) e = Some arg"

text \<open>The events of entering and of leaving a chain of interceptors that all proceed.\<close>

definition enter_events :: "Interceptor list \<Rightarrow> nat \<Rightarrow> event list" where
  "enter_events ms i = map (\<lambda>m. MwEnter (mw_id m) i) ms"

definition exit_events :: "Interceptor list \<Rightarrow> nat \<Rightarrow> event list" where
  "exit_events ms i = rev (map (\<lambda>m. MwExit (mw_id m) i) ms)"

text \<open>Running the event loop for a number of steps.\<close>

fun steps :: "nat \<Rightarrow> Simulator \<Rightarrow> Simulator" where
  "steps 0 st = st"
| "steps (Suc n) st = steps n (step st)"

section \<open>Properties of the Redis schema\<close>

lemma str_or_simps:
  "str_or None b = b"
  "str_or (Some []) b = b"
  "t \<noteq> [] \<Longrightarrow> str_or (Some t) b = t"
  by (simp_all add: str_or_def)

lemma Handler_schema_hidden:
  "\<not> h_include_in_schema h \<Longrightarrow> Handler_schema rp h = []"
  by (simp add: Handler_schema_def)

lemma Handler_schema_keys:
  "h_include_in_schema h \<Longrightarrow>
   map fst (Handler_schema rp h) =
     [str_or (h_title h) (h_channel_name h @ '':'' @ h_call_name h)]"
  by (simp add: Handler_schema_def Let_def)

lemma Publisher_schema_hidden:
  "\<not> p_include_in_schema p \<Longrightarrow> Publisher_schema rp p = []"
  by (simp add: Publisher_schema_def)

lemma Publisher_schema_keys:
  "p_include_in_schema p \<Longrightarrow>
   map fst (Publisher_schema rp p) =
     [str_or (p_title p) (p_channel_name p @ '':Publisher'')]"
  by (simp add: Publisher_schema_def Publisher_name_def Let_def)

lemma Handler_schema_methods:
  "h_include_in_schema h \<Longrightarrow>
   map (\<lambda>kc. binding_method (redis (bindings (snd kc)))) (Handler_schema rp h) = [handler_method h]"
  by (simp add: Handler_schema_def Let_def)

lemma Publisher_schema_methods:
  "p_include_in_schema p \<Longrightarrow>
   map (\<lambda>kc. binding_method (redis (bindings (snd kc)))) (Publisher_schema rp p) = [publisher_method p]"
  by (simp add: Publisher_schema_def Let_def)

text \<open>
  Claim C9, as the code has it. A hidden handler or publisher has the empty
  schema. A visible one has exactly one channel entry; its key is the title
  when the title is a non-empty string, and otherwise (no title, or the empty
  string, which Python's \<^verbatim>\<open>or\<close> treats like \<^verbatim>\<open>None\<close>) it is
  \<^verbatim>\<open><channel_name>:<call_name>\<close> for a handler and
  \<^verbatim>\<open><channel_name>:Publisher\<close> for a publisher.
\<close>

theorem schema_single_channel_key:
  "(\<not> h_include_in_schema h \<longrightarrow> Handler_schema rp h = []) \<and>
   (h_include_in_schema h \<longrightarrow>
      length (Handler_schema rp h) = 1 \<and>
      (\<forall>t. h_title h = Some t \<and> t \<noteq> [] \<longrightarrow> map fst (Handler_schema rp h) = [t]) \<and>
      (h_title h = None \<or> h_title h = Some [] \<longrightarrow>
         map fst (Handler_schema rp h) = [h_channel_name h @ '':'' @ h_call_name h])) \<and>
   (\<not> p_include_in_schema p \<longrightarrow> Publisher_schema rq p = []) \<and>
   (p_include_in_schema p \<longrightarrow>
      length (Publisher_schema rq p) = 1 \<and>
      (\<forall>t. p_title p = Some t \<and> t \<noteq> [] \<longrightarrow> map fst (Publisher_schema rq p) = [t]) \<and>
      (p_title p = None \<or> p_title p = Some [] \<longrightarrow>
         map fst (Publisher_schema rq p) = [p_channel_name p @ '':Publisher'']))"
proof -
  have hk: "map fst (Handler_schema rp h) =
      [str_or (h_title h) (h_channel_name h @ '':'' @ h_call_name h)]"
    if "h_include_in_schema h"
    using that by (rule Handler_schema_keys)
  have pk: "map fst (Publisher_schema rq p) =
      [str_or (p_title p) (p_channel_name p @ '':Publisher'')]"
    if "p_include_in_schema p"
    using that by (rule Publisher_schema_keys)
  have hl: "length (Handler_schema rp h) = 1" if "h_include_in_schema h"
    using that by (simp add: Handler_schema_def Let_def)
  have pl: "length (Publisher_schema rq p) = 1" if "p_include_in_schema p"
    using that by (simp add: Publisher_schema_def Let_def)
  show ?thesis
    using hk pk hl pl Handler_schema_hidden [of h rp] Publisher_schema_hidden [of p rq]
    by (auto simp: str_or_simps)
qed

theorem schema_single_channel_key_witness:
  "Handler_schema keep_payloads (demo_handler\<lparr>h_include_in_schema := False\<rparr>) = [] \<and>
   map fst (Handler_schema keep_payloads demo_handler) = [''test:Handle''] \<and>
   map fst (Handler_schema keep_payloads (demo_handler\<lparr>h_title := Some ''custom''\<rparr>)) = [''custom''] \<and>
   Publisher_schema keep_payloads (demo_publisher\<lparr>p_include_in_schema := False\<rparr>) = [] \<and>
   map fst (Publisher_schema keep_payloads demo_publisher) = [''test:Publisher''] \<and>
   map fst (Publisher_schema keep_payloads (demo_publisher\<lparr>p_title := Some ''custom''\<rparr>)) = [''custom'']"
  using
    schema_single_channel_key [of "demo_handler\<lparr>h_include_in_schema := False\<rparr>" keep_payloads
      "demo_publisher\<lparr>p_include_in_schema := False\<rparr>" keep_payloads]
    schema_single_channel_key [of demo_handler keep_payloads demo_publisher keep_payloads]
    schema_single_channel_key [of "demo_handler\<lparr>h_title := Some ''custom''\<rparr>" keep_payloads
      "demo_publisher\<lparr>p_title := Some ''custom''\<rparr>" keep_payloads]
  by (simp add: demo_handler_def demo_publisher_def)

text \<open>
  Claim C9 as stated fails: a handler whose title is set to the empty string
  is keyed by \<^verbatim>\<open><channel_name>:<call_name>\<close>, not by its title.
\<close>

theorem schema_key_empty_title_counterexample:
  "h_include_in_schema (demo_handler\<lparr>h_title := Some ''''\<rparr>) \<and>
   h_title (demo_handler\<lparr>h_title := Some ''''\<rparr>) = Some '''' \<and>
   map fst (Handler_schema keep_payloads (demo_handler\<lparr>h_title := Some ''''\<rparr>)) = [''test:Handle''] \<and>
   map fst (Handler_schema keep_payloads (demo_handler\<lparr>h_title := Some ''''\<rparr>)) \<noteq> ['''']"
  by (simp add: demo_handler_def Handler_schema_def str_or_def)

text \<open>
  Claim C10. The method of the Redis channel binding in the schema of a visible
  handler is \<^verbatim>\<open>lpop\<close> when a list subscription is set; else \<^verbatim>\<open>psubscribe\<close> or
  \<^verbatim>\<open>subscribe\<close> when a channel is set, by its pattern flag; else \<^verbatim>\<open>xread\<close>
  when a stream subscription is set; else \<^verbatim>\<open>None\<close>. For a visible publisher it
  is \<^verbatim>\<open>rpush\<close>, \<^verbatim>\<open>publish\<close>, \<^verbatim>\<open>xadd\<close> in the same priority.
\<close>

theorem binding_method_priority:
  assumes "h_include_in_schema h" and "p_include_in_schema p"
  shows
    "\<exists>hm pm.
       map (\<lambda>kc. binding_method (redis (bindings (snd kc)))) (Handler_schema rp h) = [hm] \<and>
       map (\<lambda>kc. binding_method (redis (bindings (snd kc)))) (Publisher_schema rq p) = [pm] \<and>
       (h_list_sub h \<noteq> None \<longrightarrow> hm = Some ''lpop'') \<and>
       (h_list_sub h = None \<longrightarrow>
          (\<forall>ch. h_channel h = Some ch \<and> pattern ch \<longrightarrow> hm = Some ''psubscribe'') \<and>
          (\<forall>ch. h_channel h = Some ch \<and> \<not> pattern ch \<longrightarrow> hm = Some ''subscribe'') \<and>
          (h_channel h = None \<and> h_stream_sub h \<noteq> None \<longrightarrow> hm = Some ''xread'') \<and>
          (h_channel h = None \<and> h_stream_sub h = None \<longrightarrow> hm = None)) \<and>
       (p_list p \<noteq> None \<longrightarrow> pm = Some ''rpush'') \<and>
       (p_list p = None \<longrightarrow>
          (p_channel p \<noteq> None \<longrightarrow> pm = Some ''publish'') \<and>
          (p_channel p = None \<and> p_stream_sub p \<noteq> None \<longrightarrow> pm = Some ''xadd'') \<and>
          (p_channel p = None \<and> p_stream_sub p = None \<longrightarrow> pm = None))"
proof -
  have hm: "map (\<lambda>kc. binding_method (redis (bindings (snd kc)))) (Handler_schema rp h) = [handler_method h]"
    using assms(1) by (rule Handler_schema_methods)
  have pm: "map (\<lambda>kc. binding_method (redis (bindings (snd kc)))) (Publisher_schema rq p) = [publisher_method p]"
    using assms(2) by (rule Publisher_schema_methods)
  have h1: "h_list_sub h \<noteq> None \<longrightarrow> handler_method h = Some ''lpop''"
    by (simp add: handler_method_def)
  have h2: "h_list_sub h = None \<longrightarrow>
          (\<forall>ch. h_channel h = Some ch \<and> pattern ch \<longrightarrow> handler_method h = Some ''psubscribe'') \<and>
          (\<forall>ch. h_channel h = Some ch \<and> \<not> pattern ch \<longrightarrow> handler_method h = Some ''subscribe'') \<and>
          (h_channel h = None \<and> h_stream_sub h \<noteq> None \<longrightarrow> handler_method h = Some ''xread'') \<and>
          (h_channel h = None \<and> h_stream_sub h = None \<longrightarrow> handler_method h = None)"
    by (auto simp: handler_method_def)
  have p1: "p_list p \<noteq> None \<longrightarrow> publisher_method p = Some ''rpush''"
    by (simp add: publisher_method_def)
  have p2: "p_list p = None \<longrightarrow>
          (p_channel p \<noteq> None \<longrightarrow> publisher_method p = Some ''publish'') \<and>
          (p_channel p = None \<and> p_stream_sub p \<noteq> None \<longrightarrow> publisher_method p = Some ''xadd'') \<and>
          (p_channel p = None \<and> p_stream_sub p = None \<longrightarrow> publisher_method p = None)"
    by (auto simp: publisher_method_def)
  show ?thesis
    apply (rule exI [of _ "handler_method h"])
    apply (rule exI [of _ "publisher_method p"])
    using hm pm h1 h2 p1 p2 apply (intro conjI)
           apply assumption+
    done
qed

theorem binding_method_priority_witness:
  "map (\<lambda>kc. binding_method (redis (bindings (snd kc)))) (Handler_schema keep_payloads demo_handler)
     = [Some ''subscribe''] \<and>
   map (\<lambda>kc. binding_method (redis (bindings (snd kc)))) (Publisher_schema keep_payloads demo_publisher)
     = [Some ''publish''] \<and>
   map (\<lambda>kc. binding_method (redis (bindings (snd kc))))
     (Handler_schema keep_payloads
        (demo_handler\<lparr>h_list_sub := Some \<lparr>listsub_name = ''test''\<rparr>,
                       h_stream_sub := Some \<lparr>streamsub_name = ''test''\<rparr>\<rparr>))
     = [Some ''lpop''] \<and>
   map (\<lambda>kc. binding_method (redis (bindings (snd kc))))
     (Publisher_schema keep_payloads
        (demo_publisher\<lparr>p_list := Some \<lparr>listsub_name = ''test''\<rparr>,
                         p_stream_sub := Some \<lparr>streamsub_name = ''test''\<rparr>\<rparr>))
     = [Some ''rpush''] \<and>
   map (\<lambda>kc. binding_method (redis (bindings (snd kc))))
     (Handler_schema keep_payloads
        (demo_handler\<lparr>h_channel := Some \<lparr>pubsub_name = ''test.*'', pattern = True\<rparr>\<rparr>))
     = [Some ''psubscribe''] \<and>
   map (\<lambda>kc. binding_method (redis (bindings (snd kc))))
     (Handler_schema keep_payloads
        (demo_handler\<lparr>h_channel := None, h_stream_sub := Some \<lparr>streamsub_name = ''test''\<rparr>\<rparr>))
     = [Some ''xread''] \<and>
   map (\<lambda>kc. binding_method (redis (bindings (snd kc))))
     (Publisher_schema keep_payloads
        (demo_publisher\<lparr>p_channel := None, p_stream_sub := Some \<lparr>streamsub_name = ''test''\<rparr>\<rparr>))
     = [Some ''xadd''] \<and>
   map (\<lambda>kc. binding_method (redis (bindings (snd kc))))
     (Handler_schema keep_payloads (demo_handler\<lparr>h_channel := None\<rparr>)) = [None] \<and>
   map (\<lambda>kc. binding_method (redis (bindings (snd kc))))
     (Publisher_schema keep_payloads (demo_publisher\<lparr>p_channel := None\<rparr>)) = [None]"
proof -
  have inc: "h_include_in_schema (h :: string list Handler)
      \<Longrightarrow> p_include_in_schema (p :: string list Publisher)
      \<Longrightarrow> \<exists>hm pm.
       map (\<lambda>kc. binding_method (redis (bindings (snd kc)))) (Handler_schema keep_payloads h) = [hm] \<and>
       map (\<lambda>kc. binding_method (redis (bindings (snd kc)))) (Publisher_schema keep_payloads p) = [pm] \<and>
       (h_list_sub h \<noteq> None \<longrightarrow> hm = Some ''lpop'') \<and>
       (h_list_sub h = None \<longrightarrow>
          (\<forall>ch. h_channel h = Some ch \<and> pattern ch \<longrightarrow> hm = Some ''psubscribe'') \<and>
          (\<forall>ch. h_channel h = Some ch \<and> \<not> pattern ch \<longrightarrow> hm = Some ''subscribe'') \<and>
          (h_channel h = None \<and> h_stream_sub h \<noteq> None \<longrightarrow> hm = Some ''xread'') \<and>
          (h_channel h = None \<and> h_stream_sub h = None \<longrightarrow> hm = None)) \<and>
       (p_list p \<noteq> None \<longrightarrow> pm = Some ''rpush'') \<and>
       (p_list p = None \<longrightarrow>
          (p_channel p \<noteq> None \<longrightarrow> pm = Some ''publish'') \<and>
          (p_channel p = None \<and> p_stream_sub p \<noteq> None \<longrightarrow> pm = Some ''xadd'') \<and>
          (p_channel p = None \<and> p_stream_sub p = None \<longrightarrow> pm = None))" for h p
    by (rule binding_method_priority)
  have a: "h_include_in_schema demo_handler" "p_include_in_schema demo_publisher"
    by (simp_all add: demo_handler_def demo_publisher_def)
  show ?thesis
    using
      inc [of demo_handler demo_publisher]
      inc [of "demo_handler\<lparr>h_list_sub := Some \<lparr>listsub_name = ''test''\<rparr>,
                       h_stream_sub := Some \<lparr>streamsub_name = ''test''\<rparr>\<rparr>"
              "demo_publisher\<lparr>p_list := Some \<lparr>listsub_name = ''test''\<rparr>,
                         p_stream_sub := Some \<lparr>streamsub_name = ''test''\<rparr>\<rparr>"]
      inc [of "demo_handler\<lparr>h_channel := Some \<lparr>pubsub_name = ''test.*'', pattern = True\<rparr>\<rparr>"
              demo_publisher]
      inc [of "demo_handler\<lparr>h_channel := None, h_stream_sub := Some \<lparr>streamsub_name = ''test''\<rparr>\<rparr>"
              "demo_publisher\<lparr>p_channel := None, p_stream_sub := Some \<lparr>streamsub_name = ''test''\<rparr>\<rparr>"]
      inc [of "demo_handler\<lparr>h_channel := None\<rparr>" "demo_publisher\<lparr>p_channel := None\<rparr>"]
    by (auto simp: demo_handler_def demo_publisher_def)
qed

end
